theory Spec2Isabelle
  imports Complex_Main
begin

section \<open>Python values and built-ins used by \<open>cover.py\<close>\<close>

text \<open>
  The exceptions the module can end in. \<open>XMLSyntaxError\<close> is what \<open>etree.fromstring\<close>
  raises on markup that is not well formed.
\<close>

datatype error =
    TypeError | ValueError | OverflowError | IndexError | KeyError
  | AttributeError | XMLSyntaxError

text \<open>
  A Python number is an unbounded \<open>int\<close> or a \<open>float\<close>. A float is held by the rational
  number it denotes (the spec's SeriesIndex is a rational number); the infinities and NaN
  are outside the model. Python compares an int with a float by value, exactly.
\<close>

datatype pynum = PInt int | PFloat rat

text \<open>
  The values \<open>fmt_sidx\<close> may be given: \<open>None\<close>, a \<open>str\<close>, a number, or any other object,
  kept by its \<open>str()\<close> form, on which \<open>float()\<close> raises TypeError.
\<close>

datatype pyval = PyNone | PyStr string | PyNum pynum | PyOther string

text \<open>
  Built-ins of the Python runtime whose full definition is outside the repository:
  \<open>float\<close> of a \<open>str\<close> (\<open>None\<close> where it raises ValueError), \<open>str\<close> of a float, and
  \<open>fmt % x\<close> for a float \<open>x\<close> and a format other than \<open>%.Nf\<close>.
\<close>

record builtins =
  float_of_str :: "string \<Rightarrow> rat option"
  repr_float :: "rat \<Rightarrow> string"
  percent_other :: "string \<Rightarrow> rat \<Rightarrow> error + string"

subsection \<open>\<open>str\<close> and \<open>%d\<close> of an int\<close>

fun digits :: "nat \<Rightarrow> string" where
  "digits n = (if n < 10 then [''0123456789'' ! n]
               else digits (n div 10) @ [''0123456789'' ! (n mod 10)])"

declare digits.simps [simp del]

definition str_int :: "int \<Rightarrow> string" where
  "str_int k = (if k < 0 then CHR ''-'' # digits (nat (- k)) else digits (nat k))"

definition value_of :: "pynum \<Rightarrow> rat" where
  "value_of n = (case n of PInt k \<Rightarrow> of_int k | PFloat q \<Rightarrow> q)"

text \<open>\<open>int(x)\<close> rounds towards zero.\<close>

definition py_int :: "rat \<Rightarrow> int" where
  "py_int q = (if 0 \<le> q then \<lfloor>q\<rfloor> else \<lceil>q\<rceil>)"

definition str_num :: "builtins \<Rightarrow> pynum \<Rightarrow> string" where
  "str_num py n = (case n of PInt k \<Rightarrow> str_int k | PFloat q \<Rightarrow> repr_float py q)"

definition str_val :: "builtins \<Rightarrow> pyval \<Rightarrow> string" where
  "str_val py v =
     (case v of PyNone \<Rightarrow> ''None'' | PyStr s \<Rightarrow> s | PyNum n \<Rightarrow> str_num py n
      | PyOther s \<Rightarrow> s)"

subsection \<open>\<open>float\<close>\<close>

fun bit_length :: "nat \<Rightarrow> nat" where
  "bit_length n = (if n = 0 then 0 else Suc (bit_length (n div 2)))"

declare bit_length.simps [simp del]

text \<open>
  \<open>float(k)\<close> of an int: exact up to 53 bits, beyond that the nearest double, ties to the
  even significand; OverflowError when that is \<open>2 ^ 1024\<close> or more.
\<close>

definition float_of_int :: "int \<Rightarrow> error + rat" where
  "float_of_int k =
     (let a = \<bar>k\<bar> in
      if a < 2 ^ 53 then Inr (of_int k)
      else
        let e = bit_length (nat a) - 53;
            q = a div 2 ^ e;
            r = a mod 2 ^ e;
            half = 2 ^ (e - 1);
            q' = (if half < r \<or> (r = half \<and> odd q) then q + 1 else q);
            v = q' * 2 ^ e
        in if 2 ^ 1024 \<le> v then Inl OverflowError
           else Inr (of_int (sgn k * v)))"

definition py_float :: "builtins \<Rightarrow> pyval \<Rightarrow> error + rat" where
  "py_float py v =
     (case v of
        PyNone \<Rightarrow> Inl TypeError
      | PyStr s \<Rightarrow> (case float_of_str py s of None \<Rightarrow> Inl ValueError | Some q \<Rightarrow> Inr q)
      | PyNum (PInt k) \<Rightarrow> float_of_int k
      | PyNum (PFloat q) \<Rightarrow> Inr q
      | PyOther s \<Rightarrow> Inl TypeError)"

subsection \<open>\<open>fmt % x\<close> for a float\<close>

definition is_digit :: "char \<Rightarrow> bool" where
  "is_digit c = (c \<in> set ''0123456789'')"

definition digit_val :: "char \<Rightarrow> nat" where
  "digit_val c = (of_char c :: nat) - 48"

definition nat_of_digits :: "string \<Rightarrow> nat" where
  "nat_of_digits ds = foldl (\<lambda>acc c. 10 * acc + digit_val c) 0 ds"

text \<open>The precision \<open>N\<close> when the whole format is \<open>%.Nf\<close>.\<close>

definition fixed_spec :: "string \<Rightarrow> nat option" where
  "fixed_spec fmt =
     (case fmt of
        c1 # c2 # rest \<Rightarrow>
          if c1 = CHR ''%'' \<and> c2 = CHR ''.'' \<and> 2 \<le> length rest \<and> last rest = CHR ''f''
             \<and> list_all is_digit (butlast rest)
          then Some (nat_of_digits (butlast rest)) else None
      | _ \<Rightarrow> None)"

text \<open>
  \<open>'%.Nf' % q\<close>: the value rounded to \<open>N\<close> decimals, ties to even, the sign kept also
  when the digits are all zero.
\<close>

definition fixed_point :: "nat \<Rightarrow> rat \<Rightarrow> string" where
  "fixed_point n q =
     (let s = \<bar>q\<bar> * 10 ^ n;
          f = \<lfloor>s\<rfloor>;
          r = s - of_int f;
          m = nat (if 1 / 2 < r \<or> (r = 1 / 2 \<and> odd f) then f + 1 else f);
          ip = digits (m div 10 ^ n);
          fp = digits (m mod 10 ^ n)
      in (if q < 0 then ''-'' else '''') @ ip @
         (if n = 0 then '''' else CHR ''.'' # replicate (n - length fp) CHR ''0'' @ fp))"

definition percent_float :: "builtins \<Rightarrow> string \<Rightarrow> rat \<Rightarrow> error + string" where
  "percent_float py fmt q =
     (case fixed_spec fmt of Some n \<Rightarrow> Inr (fixed_point n q)
      | None \<Rightarrow> percent_other py fmt q)"

section \<open>Series index formatting\<close>

definition coding :: "(int \<times> string) list" where
  "coding = zip [1000, 900, 500, 400, 100, 90, 50, 40, 10, 9, 5, 4, 1]
     [''M'', ''CM'', ''D'', ''CD'', ''C'', ''XC'', ''L'', ''XL'', ''X'', ''IX'',
      ''V'', ''IV'', ''I'']"

text \<open>
  The inner \<open>while num >= d\<close> of \<open>roman\<close>. Every \<open>d\<close> of \<open>coding\<close> is positive; for
  \<open>d \<le> 0\<close> the source's loop would not end, and the guard \<open>0 < d\<close> leaves it at once.
\<close>

function roman_while :: "int \<Rightarrow> string \<Rightarrow> string list \<times> int \<Rightarrow> string list \<times> int" where
  "roman_while d r (result, num) =
     (if 0 < d \<and> d \<le> num then roman_while d r (result @ [r], num - d)
      else (result, num))"
  by pat_completeness auto
termination
  by (relation "measure (\<lambda>(d, r, result, num). nat num)") auto

declare roman_while.simps [simp del]

text \<open>The \<open>for d, r in coding\<close> around it.\<close>

fun roman_for :: "(int \<times> string) list \<Rightarrow> string list \<times> int \<Rightarrow> string list \<times> int" where
  "roman_for [] st = st"
| "roman_for ((d, r) # tbl) st = roman_for tbl (roman_while d r st)"

text \<open>
  \<open>roman(num)\<close>. A float that passes the guard is integral and below 4000, so Python's
  comparisons and subtractions on it are exact and the loop runs as on the int of the
  same value.
\<close>

definition roman :: "builtins \<Rightarrow> pynum \<Rightarrow> string" where
  "roman py num =
     (if value_of num \<le> 0 \<or> 4000 \<le> value_of num
         \<or> of_int (py_int (value_of num)) \<noteq> value_of num
      then str_num py num
      else concat (fst (roman_for coding ([], py_int (value_of num)))))"

text \<open>\<open>fmt_sidx(i, fmt='%.2f', use_roman=False)\<close>; only TypeError is caught.\<close>

definition fmt_sidx :: "builtins \<Rightarrow> pyval \<Rightarrow> string \<Rightarrow> bool \<Rightarrow> error + string" where
  "fmt_sidx py i0 fmt use_roman =
     (let i = (if i0 = PyNone \<or> i0 = PyStr '''' then PyNum (PInt 1) else i0) in
      case py_float py i of
        Inl TypeError \<Rightarrow> Inr (str_val py i)
      | Inl e \<Rightarrow> Inl e
      | Inr x \<Rightarrow>
          if of_int (py_int x) = x
          then Inr (if use_roman then roman py (PInt (py_int x)) else str_int (py_int x))
          else percent_float py fmt x)"

definition default_fmt :: string where
  "default_fmt = ''%.2f''"

section \<open>Strings\<close>

text \<open>
  \<open>s.replace(old, new)\<close>: every occurrence of \<open>old\<close>, left to right, none overlapping;
  with an empty \<open>old\<close>, \<open>new\<close> goes before every character and at the end.
\<close>

function replace_str :: "string \<Rightarrow> string \<Rightarrow> string \<Rightarrow> string" where
  "replace_str old new [] = (if old = [] then new else [])"
| "replace_str old new (c # cs) =
     (if old = [] then new @ c # replace_str old new cs
      else if take (length old) (c # cs) = old
        then new @ replace_str old new (drop (length old) (c # cs))
      else c # replace_str old new cs)"
  by pat_completeness auto
termination
  by (relation "measure (\<lambda>(old, new, s). length s)") auto

text \<open>
  \<open>templ % arg\<close> for a single \<open>str\<close> argument. \<open>%%\<close> gives a percent sign and \<open>%s\<close> the
  argument; a second \<open>%s\<close>, or none at all, is Python's TypeError, and a template that
  ends in a lone \<open>%\<close> its ValueError. The templates of this class hold no other
  conversion: flags, widths and the other conversion types are not decoded, and the
  model stops on them with ValueError, as Python does on an unknown conversion.
\<close>

fun percent_str :: "string \<Rightarrow> string \<Rightarrow> bool \<Rightarrow> error + string" where
  "percent_str [] arg used = (if used then Inr [] else Inl TypeError)"
| "percent_str [c] arg used =
     (if c = CHR ''%'' then Inl ValueError
      else map_sum id ((#) c) (percent_str [] arg used))"
| "percent_str (c # k # cs) arg used =
     (if c \<noteq> CHR ''%'' then map_sum id ((#) c) (percent_str (k # cs) arg used)
      else if k = CHR ''%'' then map_sum id ((#) CHR ''%'') (percent_str cs arg used)
      else if k = CHR ''s'' then
        (if used then Inl TypeError else map_sum id ((@) arg) (percent_str cs arg True))
      else Inl ValueError)"

definition text_of_lines :: "string list \<Rightarrow> string" where
  "text_of_lines ls = concat (map (\<lambda>l. l @ [CHR 0x0A]) ls)"

section \<open>The cover page templates\<close>

text \<open>
  The two class attributes, after \<open>textwrap.dedent\<close>: the eight leading blanks every
  line shares are gone, and the blank last line is empty.
\<close>

definition SVG_TEMPLATE :: string where
  \<open>SVG_TEMPLATE = text_of_lines
     [''<html xmlns="http://www.w3.org/1999/xhtml" xml:lang="en">'',
      ''    <head>'',
      ''        <meta http-equiv="Content-Type" content="text/html; charset=UTF-8" />'',
      ''        <meta name="calibre:cover" content="true" />'',
      ''        <title>Cover</title>'',
      ''        <style type="text/css" title="override_css">'',
      ''            @page {padding: 0pt; margin:0pt}'',
      ''            body { text-align: center; padding:0pt; margin: 0pt; }'',
      ''        </style>'',
      ''    </head>'',
      ''    <body>'',
      ''        <div>'',
      ''            <svg version="1.1" xmlns="http://www.w3.org/2000/svg"'',
      ''                xmlns:xlink="http://www.w3.org/1999/xlink"'',
      ''                width="100%%" height="100%%" viewBox="__viewbox__"'',
      ''                preserveAspectRatio="__ar__">'',
      ''                <image width="__width__" height="__height__" xlink:href="%s"/>'',
      ''            </svg>'',
      ''        </div>'',
      ''    </body>'',
      ''</html>'']\<close>

definition NONSVG_TEMPLATE :: string where
  \<open>NONSVG_TEMPLATE = text_of_lines
     [''<html xmlns="http://www.w3.org/1999/xhtml" xml:lang="en">'',
      ''    <head>'',
      ''        <meta http-equiv="Content-Type" content="text/html; charset=UTF-8" />'',
      ''        <meta name="calibre:cover" content="true" />'',
      ''        <title>Cover</title>'',
      ''        <style type="text/css" title="override_css">'',
      ''            @page {padding: 0pt; margin:0pt}'',
      ''            body { text-align: center; padding:0pt; margin: 0pt }'',
      ''            div { padding:0pt; margin: 0pt }'',
      ''            img { padding:0pt; margin: 0pt }'',
      ''        </style>'',
      ''    </head>'',
      ''    <body>'',
      ''        <div>'',
      ''            <img src="%s" alt="cover" __style__ />'',
      ''        </div>'',
      ''    </body>'',
      ''</html>'']\<close>

section \<open>The book, as the cover inserter sees it\<close>

text \<open>
  Modelled from the spec: the book's document model (class \<open>OEBBook\<close> and its guide,
  manifest and spine, module \<open>..base\<close>) is not among the sources. The spec gives its
  accessor contract: the guide maps a name to a reference with href, title and relation;
  the manifest adds an item with id, href, media type and parsed content and is looked up
  by href; the spine is an ordered sequence with insertion at an index under a
  \<open>linear\<close> flag; the metadata fields are lists read at their first element.
\<close>

record reference =
  ref_href :: "string option"
  ref_title :: string
  ref_relation :: string

record 'd item =
  item_id :: string
  item_href :: string
  media_type :: "string option"
  data :: 'd

record creator =
  name :: string
  role :: string

record metadata =
  title :: "string list"
  creators :: "creator list"
  series :: "string list"
  series_index :: "pyval list"

record 'd oeb_book =
  metadata :: metadata
  guide :: "string \<rightharpoonup> reference"
  manifest :: "string \<rightharpoonup> 'd item"
  spine :: "('d item \<times> bool) list"

text \<open>
  Modelled from the spec: \<open>guide.add(name, title, relation)\<close> makes the named reference
  with that title and relation; its href is not set until it is assigned.
\<close>

definition guide_add ::
  "string \<Rightarrow> string \<Rightarrow> string \<Rightarrow> (string \<rightharpoonup> reference) \<Rightarrow> (string \<rightharpoonup> reference)" where
  "guide_add nm ttl rel g =
     g(nm \<mapsto> \<lparr>ref_href = None, ref_title = ttl, ref_relation = rel\<rparr>)"

text \<open>\<open>guide.refs[nm].href = h\<close>, KeyError when the name is absent.\<close>

definition set_href ::
  "string \<Rightarrow> string \<Rightarrow> (string \<rightharpoonup> reference) \<Rightarrow> error + (string \<rightharpoonup> reference)" where
  "set_href nm h g =
     (case g nm of None \<Rightarrow> Inl KeyError
      | Some r \<Rightarrow> Inr (g(nm \<mapsto> r\<lparr>ref_href := Some h\<rparr>)))"

text \<open>
  Modelled from the spec: \<open>manifest.add(id, href, media_type, data)\<close> registers the item
  under its href and returns it; \<open>spine.insert(i, item, linear)\<close> puts the entry at
  index \<open>i\<close>.
\<close>

definition manifest_add ::
  "string \<Rightarrow> string \<Rightarrow> string option \<Rightarrow> 'd \<Rightarrow> (string \<rightharpoonup> 'd item)
   \<Rightarrow> 'd item \<times> (string \<rightharpoonup> 'd item)" where
  "manifest_add i h mt d m =
     (let it = \<lparr>item_id = i, item_href = h, media_type = mt, data = d\<rparr>
      in (it, m(h \<mapsto> it)))"

definition spine_insert ::
  "nat \<Rightarrow> 'd item \<Rightarrow> bool \<Rightarrow> ('d item \<times> bool) list \<Rightarrow> ('d item \<times> bool) list" where
  "spine_insert i it lin sp = take i sp @ (it, lin) # drop i sp"

text \<open>
  The collaborators of \<open>insert_cover\<close> that are outside the sources, taken as they are
  given: \<open>urllib.parse.unquote\<close>, \<open>urldefrag\<close> of \<open>..base\<close>, \<open>guess_type\<close> of
  \<open>utils.mimetypes\<close>, \<open>etree.fromstring\<close> (\<open>None\<close> where it raises on markup that does
  not parse) and \<open>manifest.generate\<close>, which the spec describes as giving a fresh unique
  (id, href) pair for a base name.
\<close>

record 'd collab =
  unquote :: "string \<Rightarrow> string"
  urldefrag :: "string \<Rightarrow> string \<times> string"
  guess_type :: "string \<Rightarrow> string option \<times> string option"
  fromstring :: "string \<Rightarrow> 'd option"
  generate :: "(string \<rightharpoonup> 'd item) \<Rightarrow> string \<Rightarrow> string \<Rightarrow> string \<times> string"

section \<open>\<open>CoverManager\<close>\<close>

text \<open>The instance: its flags, its two templates, and \<open>self.oeb\<close>, unset before \<open>__call__\<close>.\<close>

record 'd cover_manager =
  no_default_cover :: bool
  no_svg_cover :: bool
  preserve_aspect_ratio :: bool
  svg_template :: string
  non_svg_template :: string
  oeb :: "'d oeb_book option"

text \<open>
  \<open>__init__\<close>. \<open>fixed_size\<close> is the spec's optional pair of fixed pixel dimensions. The
  style for a fixed size is filled with \<open>(width, height)\<close> in the order the source gives
  them to \<open>%\<close>; without one the style keeps its \<open>%%\<close>, which the later \<open>%\<close> turns into a
  percent sign.
\<close>

definition init :: "bool \<Rightarrow> bool \<Rightarrow> bool \<Rightarrow> (int \<times> int) option \<Rightarrow> 'd cover_manager" where
  \<open>init ndc nsc par fixed_size =
     (let ar = (if par then ''xMidYMid meet'' else ''none'');
          style = (case fixed_size of
                     None \<Rightarrow> ''style="height: 100%%"''
                   | Some (width, height) \<Rightarrow>
                       ''style="height: '' @ str_int width @ ''; width: '' @ str_int height @ ''"'')
      in \<lparr>no_default_cover = ndc, no_svg_cover = nsc, preserve_aspect_ratio = par,
          svg_template = replace_str ''__ar__'' ar SVG_TEMPLATE,
          non_svg_template = replace_str ''__style__'' style NONSVG_TEMPLATE,
          oeb = None\<rparr>)\<close>

text \<open>
  \<open>default_cover\<close>: everything after the metadata reads is commented out in the source,
  so what is left is the suppression test, the reads (\<open>m.title[0]\<close> raises IndexError on a
  book without a title, \<open>fmt_sidx\<close> may raise) and \<open>return None\<close>.
\<close>

definition default_cover :: "builtins \<Rightarrow> 'd cover_manager \<Rightarrow> error + string option" where
  "default_cover py self =
     (if no_default_cover self then Inr None
      else case oeb self of
        None \<Rightarrow> Inl AttributeError
      | Some book \<Rightarrow>
          (let m = metadata book in
           (case title m of
              [] \<Rightarrow> Inl IndexError
            | t # _ \<Rightarrow>
                (let authors = map name (filter (\<lambda>x. role x = ''aut'') (creators m)) in
                 if series m \<noteq> [] \<and> series_index m \<noteq> [] then
                   (case fmt_sidx py (hd (series_index m)) default_fmt True of
                      Inl e \<Rightarrow> Inl e
                    | Inr sidx \<Rightarrow> Inr None)
                 else Inr None))))"

text \<open>\<open>inspect_cover\<close>: its body is commented out, it returns \<open>(None, None)\<close> for every href.\<close>

definition inspect_cover :: "string \<Rightarrow> int option \<times> int option" where
  "inspect_cover href = (None, None)"

text \<open>
  Lines 187 to 193 of \<open>insert_cover\<close>, run when an item was found or made: the item goes
  to the front of the spine as a linear entry, a "cover" reference is made if there is
  none, and the "cover" and "titlepage" references are pointed at the item.
\<close>

definition place_item :: "'d item \<Rightarrow> 'd oeb_book \<Rightarrow> error + 'd oeb_book" where
  "place_item it book =
     (let sp = spine_insert 0 it True (spine book);
          g1 = (if guide book ''cover'' = None
                then guide_add ''cover'' ''Title Page'' ''a'' (guide book) else guide book)
      in case set_href ''cover'' (item_href it) g1 of
           Inl e \<Rightarrow> Inl e
         | Inr g2 \<Rightarrow>
             if g2 ''titlepage'' \<noteq> None then
               (case set_href ''titlepage'' (item_href it) g2 of
                  Inl e \<Rightarrow> Inl e
                | Inr g3 \<Rightarrow> Inr (book\<lparr>guide := g3, spine := sp\<rparr>))
             else Inr (book\<lparr>guide := g2, spine := sp\<rparr>))"

text \<open>
  Lines 164 to 183 of \<open>insert_cover\<close>: the page is made for the cover at \<open>href\<close> and
  added to the manifest. \<open>inspect_cover\<close> is called through \<open>self\<close>, so the method is an
  argument here; the one this class defines is \<^const>\<open>inspect_cover\<close>. The filled
  template is stored back in \<open>self.svg_template\<close>, and stays there if a later line raises.
\<close>

definition make_titlepage ::
  "'d collab \<Rightarrow> (string \<Rightarrow> int option \<times> int option) \<Rightarrow> 'd cover_manager \<Rightarrow> 'd oeb_book
   \<Rightarrow> string \<Rightarrow> (error + 'd item \<times> 'd oeb_book) \<times> 'd cover_manager \<times> string list" where
  "make_titlepage c inspect self book href =
     (let (w0, h0) = inspect href;
          failed = (w0 = None \<or> h0 = None);
          warnings = (if failed then [''Failed to read cover dimensions''] else []);
          width = (case (failed, w0) of (False, Some w) \<Rightarrow> w | _ \<Rightarrow> 600);
          height = (case (failed, h0) of (False, Some h) \<Rightarrow> h | _ \<Rightarrow> 800);
          t1 = replace_str ''__viewbox__''
                 (''0 0 '' @ str_int width @ '' '' @ str_int height) (svg_template self);
          t2 = replace_str ''__width__'' (str_int width) t1;
          t3 = replace_str ''__height__'' (str_int height) t2;
          self1 = self\<lparr>svg_template := t3\<rparr>;
          templ = (if no_svg_cover self1 then non_svg_template self1 else svg_template self1)
      in (case percent_str templ (unquote c href) False of
            Inl e \<Rightarrow> (Inl e, self1, warnings)
          | Inr tp \<Rightarrow>
              (let (id', href') = generate c (manifest book) ''titlepage'' ''titlepage.xhtml''
               in (case fromstring c tp of
                     None \<Rightarrow> (Inl XMLSyntaxError, self1, warnings)
                   | Some tree \<Rightarrow>
                       (let (it, m') = manifest_add id' href' (fst (guess_type c ''t.xhtml''))
                                         tree (manifest book)
                        in (Inr (it, book\<lparr>manifest := m'\<rparr>), self1, warnings))))))"

text \<open>
  \<open>insert_cover\<close>. The result is the outcome (\<open>Inl\<close> the exception raised), the instance
  as the call leaves it, with the book in its \<open>oeb\<close> field, and the warnings logged.
\<close>

definition insert_cover ::
  "builtins \<Rightarrow> 'd collab \<Rightarrow> (string \<Rightarrow> int option \<times> int option) \<Rightarrow> 'd cover_manager
   \<Rightarrow> (error + unit) \<times> 'd cover_manager \<times> string list" where
  "insert_cover py c inspect self =
     (case oeb self of
        None \<Rightarrow> (Inl AttributeError, self, [])
      | Some book \<Rightarrow>
          (if guide book ''titlepage'' = None then
             (case (case guide book ''cover'' of
                      Some r \<Rightarrow> Inr (ref_href r)
                    | None \<Rightarrow> default_cover py self) of
                Inl e \<Rightarrow> (Inl e, self, [])
              | Inr None \<Rightarrow> (Inr (), self, [])
              | Inr (Some href) \<Rightarrow>
                  (case make_titlepage c inspect self book href of
                     (Inl e, self1, ws) \<Rightarrow> (Inl e, self1, ws)
                   | (Inr (it, book1), self1, ws) \<Rightarrow>
                       (case place_item it book1 of
                          Inl e \<Rightarrow> (Inl e, self1\<lparr>oeb := Some book1\<rparr>, ws)
                        | Inr book2 \<Rightarrow> (Inr (), self1\<lparr>oeb := Some book2\<rparr>, ws))))
           else
             (case guide book ''titlepage'' of
                None \<Rightarrow> (Inl KeyError, self, [])
              | Some r \<Rightarrow>
                  (case ref_href r of
                     None \<Rightarrow> (Inl TypeError, self, [])
                   | Some h \<Rightarrow>
                       (case manifest book (fst (urldefrag c h)) of
                          None \<Rightarrow> (Inl KeyError, self, [])
                        | Some it \<Rightarrow>
                            (case place_item it book of
                               Inl e \<Rightarrow> (Inl e, self, [])
                             | Inr book2 \<Rightarrow> (Inr (), self\<lparr>oeb := Some book2\<rparr>, [])))))))"

text \<open>\<open>__call__(self, oeb)\<close>: the book is stored in the instance, then \<open>insert_cover\<close> runs.\<close>

definition call ::
  "builtins \<Rightarrow> 'd collab \<Rightarrow> (string \<Rightarrow> int option \<times> int option) \<Rightarrow> 'd cover_manager
   \<Rightarrow> 'd oeb_book \<Rightarrow> (error + unit) \<times> 'd cover_manager \<times> string list" where
  "call py c inspect self book = insert_cover py c inspect (self\<lparr>oeb := Some book\<rparr>)"


section \<open>What the claims are measured against\<close>






text \<open>
  An instance of the built-ins for running the model on concrete inputs: \<open>float\<close> reads a
  string of decimal digits and rejects every other string, \<open>str\<close> of a float prints one
  decimal, and no format besides \<open>%.Nf\<close> is taken.
\<close>

definition example_py :: builtins where
  "example_py =
     \<lparr>float_of_str = (\<lambda>s. if s \<noteq> [] \<and> list_all is_digit s
                             then Some (of_nat (nat_of_digits s)) else None),
      repr_float = fixed_point 1,
      percent_other = (\<lambda>fmt q. Inl ValueError)\<rparr>"


section \<open>The Roman numeral loop is the greedy decomposition\<close>









lemma greedy_largest:
  "find (\<lambda>(d, r). d \<le> n) coding = Some (d, r) \<Longrightarrow> (d', r') \<in> set coding \<Longrightarrow> d' \<le> n \<Longrightarrow> d' \<le> d"
  by (auto simp: coding_def split: if_splits)












section \<open>Reading the numeral back\<close>











section \<open>Claims on the series index formatter\<close>





text \<open>
  Claim C9. \<open>fmt_sidx(None, use_roman=True)\<close> is \<open>"I"\<close>, whatever the format, and
  \<open>fmt_sidx(2.5)\<close> with the default format and \<open>use_roman\<close> is \<open>"2.50"\<close>.
\<close>

theorem fmt_sidx_examples:
  "fmt_sidx py PyNone fmt True = Inr ''I''
   \<and> fmt_sidx py (PyNum (PFloat (5 / 2))) default_fmt False = Inr ''2.50''"
proof
  show "fmt_sidx py PyNone fmt True = Inr ''I''"
    by (simp add: fmt_sidx_def py_float_def float_of_int_def py_int_def roman_def value_of_def
        coding_def roman_while.simps)
  have i: "py_int (5 / 2) = 2" by (simp add: py_int_def floor_eq_iff)
  have "fmt_sidx py (PyNum (PFloat (5 / 2))) default_fmt False
          = percent_float py default_fmt (5 / 2)"
    by (simp add: fmt_sidx_def py_float_def i)
  also have "\<dots> = Inr ''2.50''"
    by (simp add: default_fmt_def percent_float_def fixed_spec_def is_digit_def
        nat_of_digits_def digit_val_def fixed_point_def digits.simps)
  finally show "fmt_sidx py (PyNum (PFloat (5 / 2))) default_fmt False = Inr ''2.50''" .
qed

theorem fmt_sidx_examples_witness:
  "fmt_sidx example_py PyNone ''%d'' True = Inr ''I''
   \<and> fmt_sidx example_py (PyNum (PFloat (5 / 2))) ''%.2f'' False = Inr ''2.50''"
  using fmt_sidx_examples [of example_py "''%d''"] by (simp add: default_fmt_def)

text \<open>
  Claim C3 says that a non-empty string that is not a number comes back unchanged. The
  code catches TypeError only, and \<open>float\<close> of such a string raises ValueError: the call
  ends in that exception, for every format and either value of \<open>use_roman\<close>.
\<close>

theorem fmt_sidx_str_raises:
  "s \<noteq> [] \<Longrightarrow> float_of_str py s = None
   \<Longrightarrow> fmt_sidx py (PyStr s) fmt use_roman = Inl ValueError"
  by (simp add: fmt_sidx_def py_float_def)

theorem fmt_sidx_str_raises_witness:
  "''abc'' \<noteq> [] \<and> float_of_str example_py ''abc'' = None
   \<and> fmt_sidx example_py (PyStr ''abc'') ''%.2f'' False = Inl ValueError"
proof -
  have f: "float_of_str example_py ''abc'' = None"
    by (simp add: example_py_def is_digit_def)
  show ?thesis using fmt_sidx_str_raises [of "''abc''" example_py "''%.2f''" False] f by simp
qed

end
